theory Spec2Isabelle
  imports Main "HOL-Library.AList"
begin

section \<open>aiohttp/pytest\_plugin.py: the pytest integration of aiohttp\<close>

text \<open>
  The plugin is embedded function by function. Python objects that the plugin only
  passes around (event loops, servers, clients) are identified by a number; the
  effects the plugin has on its surroundings are written into an explicit
  \<open>world\<close> that every stateful function takes and returns. Exceptions are values:
  a function that can raise returns \<open>exn + 'a\<close>, with \<open>Inl\<close> for the exception.
\<close>

subsection \<open>Exceptions\<close>

text \<open>
  The exceptions the plugin raises itself, and the ones that reach it from the code it
  calls. A message that the source builds with \<^verbatim>\<open>%\<close> from a value whose
  \<^verbatim>\<open>repr\<close> it prints is kept as the constructor's arguments:
  \<^item> \<open>Unknown_loop name keys\<close> is
    \<^verbatim>\<open>ValueError("Unknown loop '%s', available loops: %s" % (name, keys))\<close>;
  \<^item> \<open>Unknown_argument_type t\<close> is
    \<^verbatim>\<open>ValueError("Unknown argument type: %r" % t)\<close>, \<open>t\<close> the name of the class.
  \<^item> \<open>Multiple_values k\<close> is the \<^verbatim>\<open>TypeError\<close> of a call that gets the
    keyword argument \<open>k\<close> twice.

  \<open>Raised s\<close> is any other exception, by its text: what a test body, a fixture or a
  callable of the test suite raises.
\<close>

datatype exn =
    Exception string
  | RuntimeError string
  | AssertionError string
  | KeyError string
  | StopAsyncIteration
  | Unknown_loop string "string list"
  | Unknown_argument_type string
  | Multiple_values string
  | Raised string

subsection \<open>Strings: the three \<^verbatim>\<open>str\<close> methods of \<^verbatim>\<open>pytest_generate_tests\<close>\<close>

text \<open>\<^verbatim>\<open>s.split(',')\<close>: always at least one field; an empty string gives \<open>['']\<close>.\<close>

fun split_comma :: "string \<Rightarrow> string list" where
  "split_comma [] = [[]]"
| "split_comma (c # cs) =
     (if c = CHR '','' then [] # split_comma cs
      else (case split_comma cs of
              [] \<Rightarrow> [[c]]
            | field # fields \<Rightarrow> (c # field) # fields))"

text \<open>\<^verbatim>\<open>name.endswith('?')\<close>.\<close>

definition endswith_qmark :: "string \<Rightarrow> bool" where
  "endswith_qmark name = (name \<noteq> [] \<and> last name = CHR ''?'')"

text \<open>\<^verbatim>\<open>name.strip(' ?')\<close>: spaces and question marks go, at both ends.\<close>

definition strip_space_qmark :: "string \<Rightarrow> string" where
  "strip_space_qmark name =
     (let junk = (\<lambda>c. c = CHR '' '' \<or> c = CHR ''?'')
      in rev (dropWhile junk (rev (dropWhile junk name))))"

subsection \<open>\<^verbatim>\<open>pytest_generate_tests\<close>: the loops a test is parameterized with\<close>

text \<open>
  The loop constructors that the dictionaries hold:
  \<^verbatim>\<open>asyncio.new_event_loop\<close>, \<^verbatim>\<open>uvloop.new_event_loop\<close>,
  \<^verbatim>\<open>tokio.new_event_loop\<close>.
\<close>

datatype loop_factory = Asyncio_new_event_loop | Uvloop_new_event_loop | Tokio_new_event_loop

text \<open>
  \<^verbatim>\<open>avail_factories\<close>. Whether \<^verbatim>\<open>import uvloop\<close> and \<^verbatim>\<open>import tokio\<close>
  succeeded at module load is a parameter (\<open>uvloop\<close>, \<open>tokio\<close>: the module is not
  \<^verbatim>\<open>None\<close>). A Python dictionary keeps its keys in insertion order, so it is an
  association list, written with \<^const>\<open>AList.update\<close>: a new key goes last, a key
  already there keeps its place.
\<close>

definition avail_factories :: "bool \<Rightarrow> bool \<Rightarrow> (string \<times> loop_factory) list" where
  "avail_factories uvloop tokio =
     (let avail = [(''pyloop'', Asyncio_new_event_loop)];
          avail = (if uvloop then AList.update ''uvloop'' Uvloop_new_event_loop avail else avail);
          avail = (if tokio then AList.update ''tokio'' Tokio_new_event_loop avail else avail)
      in avail)"

text \<open>
  The \<^verbatim>\<open>for name in loops.split(',')\<close> loop, with \<open>factories\<close> as its state.
  The error lists \<^verbatim>\<open>list(factories.keys())\<close>: the keys of the dictionary being
  built, as the source has it.
\<close>

fun select_factories ::
  "(string \<times> loop_factory) list \<Rightarrow> string list \<Rightarrow> (string \<times> loop_factory) list
     \<Rightarrow> exn + (string \<times> loop_factory) list" where
  "select_factories avail [] factories = Inr factories"
| "select_factories avail (name # names) factories =
     (let required = \<not> endswith_qmark name;
          name = strip_space_qmark name
      in case map_of avail name of
           None \<Rightarrow>
             if required then Inl (Unknown_loop name (map fst factories))
             else select_factories avail names factories
         | Some factory \<Rightarrow>
             select_factories avail names (AList.update name factory factories))"

text \<open>
  What \<^verbatim>\<open>pytest_generate_tests\<close> reads of \<^verbatim>\<open>metafunc\<close>: its fixture names and
  \<^verbatim>\<open>metafunc.config.option.loop\<close>.
\<close>

record metafunc =
  mf_fixturenames :: "string list"
  option_loop :: string

text \<open>
  The call \<^verbatim>\<open>metafunc.parametrize("loop_factory", values, ids=keys)\<close> is the result
  \<open>Some (values, keys)\<close>; the early \<^verbatim>\<open>return\<close> is \<open>None\<close>.
\<close>

definition pytest_generate_tests ::
  "bool \<Rightarrow> bool \<Rightarrow> metafunc \<Rightarrow> exn + (loop_factory list \<times> string list) option" where
  "pytest_generate_tests uvloop tokio mf =
     (if ''loop_factory'' \<notin> set (mf_fixturenames mf) then Inr None
      else
        let loops = option_loop mf;
            avail = avail_factories uvloop tokio;
            loops = (if loops = ''all'' then ''pyloop,uvloop?,tokio?'' else loops)
        in case select_factories avail (split_comma loops) [] of
             Inl e \<Rightarrow> Inl e
           | Inr factories \<Rightarrow> Inr (Some (map snd factories, map fst factories)))"

subsection \<open>Values, warnings and the world\<close>

text \<open>
  The values the plugin looks at: \<^verbatim>\<open>None\<close>, an event loop (by its number) and, for
  every other fixture value, a string. \<open>truthy\<close> is Python's truth test, which
  \<^verbatim>\<open>if loop:\<close> applies.
\<close>

datatype val = VNone | VLoop nat | VStr string

fun truthy :: "val \<Rightarrow> bool" where
  "truthy VNone = False"
| "truthy (VLoop l) = True"
| "truthy (VStr s) = (s \<noteq> [])"

text \<open>
  A warning as \<^verbatim>\<open>warnings.catch_warnings(record=True)\<close> records it. The plugin
  compares \<^verbatim>\<open>w.category == RuntimeWarning\<close>: the class itself.
\<close>

datatype category = RuntimeWarning | DeprecationWarning | ResourceWarning | UserWarning

record warning_message =
  category :: category
  filename :: string
  lineno :: nat
  message :: string

text \<open>What the plugin does to its surroundings, in the order it does it.\<close>

datatype event =
    Setup_test_loop nat
  | Teardown_test_loop nat bool
  | Run_until_complete nat
  | Started nat
  | Closed nat

text \<open>An asynchronous generator's remaining steps (see \<open>anext\<close> below).\<close>

datatype step = Yield val | Raise exn

text \<open>
  The world: the log of events, the next unused object number, the list that the
  active \<^verbatim>\<open>showwarning\<close> appends to, the asynchronous generator objects (by
  number), and the finalizers registered with \<^verbatim>\<open>request.addfinalizer\<close>, each the
  pair of variables its closure holds (\<^verbatim>\<open>_loop\<close> and \<^verbatim>\<open>gen\<close>).
\<close>

record world =
  events :: "event list"
  next_id :: nat
  warnings_log :: "warning_message list"
  gens :: "nat \<Rightarrow> step list"
  finalizers :: "(val \<times> nat) list"

text \<open>
  An awaitable is what it does to the world when a loop runs it to completion.
  \<^verbatim>\<open>loop.run_until_complete(aw)\<close> needs \<open>loop\<close> to be an event loop; on any other
  value the attribute lookup fails before anything runs.
\<close>

type_synonym 'a awaitable = "world \<Rightarrow> (exn + 'a) \<times> world"

definition run_until_complete :: "val \<Rightarrow> 'a awaitable \<Rightarrow> world \<Rightarrow> (exn + 'a) \<times> world" where
  "run_until_complete loop aw w =
     (case loop of
        VLoop l \<Rightarrow> aw (w\<lparr>events := events w @ [Run_until_complete l]\<rparr>)
      | _ \<Rightarrow> (Inl (Raised ''AttributeError: run_until_complete''), w))"

text \<open>
  A coroutine of the test suite (a test body, an asynchronous fixture) is opaque to the
  plugin: what the plugin can see of running it are the warnings recorded meanwhile and
  whether it returned or raised.
\<close>

record coroutine =
  co_warnings :: "warning_message list"
  co_result :: "exn + val"

definition await_coroutine :: "coroutine \<Rightarrow> val awaitable" where
  "await_coroutine co w = (co_result co, w\<lparr>warnings_log := warnings_log w @ co_warnings co\<rparr>)"

text \<open>
  Modelled from the spec: \<^verbatim>\<open>setup_test_loop\<close> and \<^verbatim>\<open>teardown_test_loop\<close> are
  imported from \<^verbatim>\<open>test_utils\<close>, which is not among the sources. By section 4.1,
  \<open>acquire\<close> creates and installs a new Loop and \<open>release(loop, fast)\<close> shuts
  it down; here each is the event that it happened, for a loop with a fresh number.
\<close>

definition setup_test_loop :: "world \<Rightarrow> nat \<times> world" where
  "setup_test_loop w =
     (next_id w, w\<lparr>events := events w @ [Setup_test_loop (next_id w)], next_id := Suc (next_id w)\<rparr>)"

definition teardown_test_loop :: "nat \<Rightarrow> bool \<Rightarrow> world \<Rightarrow> world" where
  "teardown_test_loop l fast w = w\<lparr>events := events w @ [Teardown_test_loop l fast]\<rparr>"

subsection \<open>\<^verbatim>\<open>_runtime_warning_context\<close>\<close>

text \<open>\<^verbatim>\<open>'{}'.format(n)\<close> for a natural number: its decimal digits.\<close>

fun str_nat :: "nat \<Rightarrow> string" where
  "str_nat n =
     (if n < 10 then [''0123456789'' ! n]
      else str_nat (n div 10) @ [''0123456789'' ! (n mod 10)])"

declare str_nat.simps [simp del]

text \<open>\<^verbatim>\<open>'\n'.join(rw)\<close>.\<close>

fun join_newline :: "string list \<Rightarrow> string" where
  "join_newline [] = []"
| "join_newline [line] = line"
| "join_newline (line # rest) = line @ [CHR 0x0A] @ join_newline rest"

text \<open>\<^verbatim>\<open>'{w.filename}:{w.lineno}:{w.message}'.format(w=w)\<close>.\<close>

definition format_warning :: "warning_message \<Rightarrow> string" where
  "format_warning w = filename w @ '':'' @ str_nat (lineno w) @ '':'' @ message w"

text \<open>
  Both context managers are generator functions under \<^verbatim>\<open>contextlib.contextmanager\<close>.
  The scope of the \<^verbatim>\<open>with\<close> statement runs where the generator is suspended at its
  \<^verbatim>\<open>yield\<close>. When the scope ends normally the generator is resumed and runs on;
  when the scope raises, the exception is thrown into the generator at the
  \<^verbatim>\<open>yield\<close>, and since neither generator has a \<^verbatim>\<open>try\<close> around it, the
  statements after the \<^verbatim>\<open>yield\<close> are not run and the exception leaves the
  \<^verbatim>\<open>with\<close> statement. The scope is the argument \<open>scope\<close>.

  In \<^verbatim>\<open>_runtime_warning_context\<close> the \<^verbatim>\<open>yield\<close> stands inside
  \<^verbatim>\<open>with warnings.catch_warnings(record=True) as _warnings\<close>, which starts a fresh
  list and puts the previous state back on either way out.
\<close>

definition runtime_warning_context :: "'a awaitable \<Rightarrow> 'a awaitable" where
  "runtime_warning_context scope w =
     (let (r, w') = scope (w\<lparr>warnings_log := []\<rparr>);
          warnings = warnings_log w';
          w' = w'\<lparr>warnings_log := warnings_log w\<rparr>
      in case r of
           Inl e \<Rightarrow> (Inl e, w')
         | Inr x \<Rightarrow>
             let rw = map format_warning (filter (\<lambda>w. category w = RuntimeWarning) warnings)
             in if rw \<noteq> [] then
                  (Inl (RuntimeError
                     (str_nat (length rw) @ '' Runtime Warning''
                        @ (if length rw = 1 then [] else ''s'') @ '','' @ [CHR 0x0A]
                        @ join_newline rw)), w')
                else (Inr x, w'))"

subsection \<open>\<^verbatim>\<open>_passthrough_loop_context\<close>\<close>

definition passthrough_loop_context ::
  "val \<Rightarrow> bool \<Rightarrow> (val \<Rightarrow> 'a awaitable) \<Rightarrow> 'a awaitable" where
  "passthrough_loop_context loop fast scope w =
     (if truthy loop then scope loop w
      else
        let (l, w) = setup_test_loop w
        in case scope (VLoop l) w of
             (Inl e, w) \<Rightarrow> (Inl e, w)
           | (Inr x, w) \<Rightarrow> (Inr x, teardown_test_loop l fast w))"

subsection \<open>\<^verbatim>\<open>pytest_pyfunc_call\<close>\<close>

text \<open>
  What the hook reads of \<^verbatim>\<open>pyfuncitem\<close>: \<^verbatim>\<open>config.getoption("--fast")\<close>,
  whether \<^verbatim>\<open>asyncio.iscoroutinefunction(pyfuncitem.function)\<close>, the dictionary
  \<^verbatim>\<open>funcargs\<close>, \<^verbatim>\<open>_fixtureinfo.argnames\<close>, and \<^verbatim>\<open>obj\<close>, which called
  with the test's arguments gives the coroutine to run.
\<close>

record pyfuncitem =
  option_fast :: bool
  is_coroutine_function :: bool
  funcargs :: "(string \<times> val) list"
  argnames :: "string list"
  obj :: "(string \<times> val) list \<Rightarrow> coroutine"

text \<open>
  \<^verbatim>\<open>{arg: pyfuncitem.funcargs[arg] for arg in pyfuncitem._fixtureinfo.argnames}\<close>:
  a missing key raises \<^verbatim>\<open>KeyError\<close>.
\<close>

fun testargs_of :: "(string \<times> val) list \<Rightarrow> string list \<Rightarrow> exn + (string \<times> val) list" where
  "testargs_of fa [] = Inr []"
| "testargs_of fa (arg # args) =
     (case map_of fa arg of
        None \<Rightarrow> Inl (KeyError arg)
      | Some v \<Rightarrow>
          (case testargs_of fa args of
             Inl e \<Rightarrow> Inl e
           | Inr rest \<Rightarrow> Inr ((arg, v) # rest)))"

text \<open>The hook returns \<^verbatim>\<open>True\<close> (\<open>Some True\<close>) or falls off its end (\<open>None\<close>).\<close>

definition pytest_pyfunc_call :: "pyfuncitem \<Rightarrow> world \<Rightarrow> (exn + bool option) \<times> world" where
  "pytest_pyfunc_call item w =
     (let fast = option_fast item
      in if is_coroutine_function item then
           let existing_loop = (case map_of (funcargs item) ''loop'' of None \<Rightarrow> VNone | Some v \<Rightarrow> v)
           in case runtime_warning_context
                     (passthrough_loop_context existing_loop fast
                        (\<lambda>loop w.
                            case testargs_of (funcargs item) (argnames item) of
                              Inl e \<Rightarrow> (Inl e, w)
                            | Inr testargs \<Rightarrow>
                                run_until_complete loop (await_coroutine (obj item testargs)) w))
                     w of
                (Inl e, w) \<Rightarrow> (Inl e, w)
              | (Inr x, w) \<Rightarrow> (Inr (Some True), w)
         else (Inr None, w))"

subsection \<open>\<^verbatim>\<open>pytest_fixture_setup\<close>: asynchronous fixtures\<close>

text \<open>
  Of pytest's \<^verbatim>\<open>request\<close> the wrapper reads \<^verbatim>\<open>fixturenames\<close> and calls
  \<^verbatim>\<open>getfixturevalue\<close>, which gives the fixture's value or raises, and
  \<^verbatim>\<open>addfinalizer\<close>, which appends to the world's \<open>finalizers\<close>.
\<close>

record request =
  fixturenames :: "string list"
  getfixturevalue :: "string \<Rightarrow> exn + val"

text \<open>An argument of a fixture function: the request, or another fixture's value.\<close>

datatype arg = Request request | Value val

text \<open>
  A fixture function, by what \<^verbatim>\<open>isasyncgenfunction\<close> and
  \<^verbatim>\<open>asyncio.iscoroutinefunction\<close> say of it: a plain function; a coroutine
  function, which called gives a coroutine; an asynchronous generator function, which
  called gives a generator object, here the steps it will take; or the closure
  \<^verbatim>\<open>wrapper\<close> that \<^verbatim>\<open>pytest_fixture_setup\<close> installs, with the variables it
  holds (\<^verbatim>\<open>is_async_gen\<close>, \<^verbatim>\<open>strip_request\<close>, \<^verbatim>\<open>func\<close>).
\<close>

datatype fixture_function =
    Plain_function
  | Coroutine_function "arg list \<Rightarrow> (string \<times> arg) list \<Rightarrow> coroutine"
  | Async_gen_function "arg list \<Rightarrow> (string \<times> arg) list \<Rightarrow> step list"
  | Wrapper bool bool fixture_function

fun isasyncgenfunction :: "fixture_function \<Rightarrow> bool" where
  "isasyncgenfunction (Async_gen_function g) = True"
| "isasyncgenfunction f = False"

fun iscoroutinefunction :: "fixture_function \<Rightarrow> bool" where
  "iscoroutinefunction (Coroutine_function c) = True"
| "iscoroutinefunction f = False"

record fixturedef =
  fd_func :: fixture_function
  fd_argnames :: "string list"

text \<open>
  Python's protocol for an asynchronous generator object: awaiting
  \<^verbatim>\<open>gen.__anext__()\<close> runs the generator to its next \<^verbatim>\<open>yield\<close> and gives the
  value yielded; a generator that ends raises \<^verbatim>\<open>StopAsyncIteration\<close>, one that
  raises is finished afterwards, and a \<^verbatim>\<open>StopAsyncIteration\<close> raised inside the
  generator's body comes out as a \<^verbatim>\<open>RuntimeError\<close>. \<open>advance\<close> is one such
  step on the steps left; \<open>anext\<close> takes it on the generator object of that number.
\<close>

fun advance :: "step list \<Rightarrow> (exn + val) \<times> step list" where
  "advance [] = (Inl StopAsyncIteration, [])"
| "advance (Yield v # rest) = (Inr v, rest)"
| "advance (Raise e # rest) =
     (Inl (if e = StopAsyncIteration
           then RuntimeError ''async generator raised StopAsyncIteration'' else e), [])"

definition anext :: "nat \<Rightarrow> val awaitable" where
  "anext gen w = (let (r, rest) = advance (gens w gen) in (r, w\<lparr>gens := (gens w)(gen := rest)\<rparr>))"

text \<open>
  The closure \<^verbatim>\<open>finalizer\<close>, with the variables \<^verbatim>\<open>_loop\<close> and \<^verbatim>\<open>gen\<close> it
  holds. Its \<^verbatim>\<open>try\<close> returns what the second step gives; \<^verbatim>\<open>except
  StopAsyncIteration: pass\<close> falls off the end, which returns \<^verbatim>\<open>None\<close>.
\<close>

definition finalizer :: "val \<Rightarrow> nat \<Rightarrow> val awaitable" where
  "finalizer loop gen w =
     (case run_until_complete loop (anext gen) w of
        (Inl e, w) \<Rightarrow> if e = StopAsyncIteration then (Inr VNone, w) else (Inl e, w)
      | (Inr v, w) \<Rightarrow> (Inr v, w))"

text \<open>
  The closure \<^verbatim>\<open>wrapper\<close>. \<^verbatim>\<open>kwargs['request']\<close> raises \<^verbatim>\<open>KeyError\<close>
  when pytest passed no request. \<^verbatim>\<open>gen = func(*args, **kwargs)\<close> makes a new
  generator object. The two branches on \<^verbatim>\<open>is_async_gen\<close> call \<open>func\<close> as
  the kind of function that \<^verbatim>\<open>pytest_fixture_setup\<close> found it to be; a closure
  built otherwise does not arise.
\<close>

definition wrapper ::
  "bool \<Rightarrow> bool \<Rightarrow> fixture_function \<Rightarrow> arg list \<Rightarrow> (string \<times> arg) list \<Rightarrow> val awaitable" where
  "wrapper is_async_gen strip_request func args kwargs w =
     (case map_of kwargs ''request'' of
        None \<Rightarrow> (Inl (KeyError ''request''), w)
      | Some (Value v) \<Rightarrow> (Inl (Raised ''AttributeError: fixturenames''), w)
      | Some (Request request) \<Rightarrow>
          let kwargs = (if strip_request then AList.delete ''request'' kwargs else kwargs)
          in if ''loop'' \<notin> set (fixturenames request) then
               (Inl (Exception
                  (''Asynchronous fixtures must depend on the 'loop' fixture or ''
                     @ ''be used in tests depending from it.'')), w)
             else
               case getfixturevalue request ''loop'' of
                 Inl e \<Rightarrow> (Inl e, w)
               | Inr loop \<Rightarrow>
                   if is_async_gen then
                     (case func of
                        Async_gen_function g \<Rightarrow>
                          let gen = next_id w;
                              w = w\<lparr>gens := (gens w)(gen := g args kwargs), next_id := Suc gen\<rparr>;
                              w = w\<lparr>finalizers := finalizers w @ [(loop, gen)]\<rparr>
                          in run_until_complete loop (anext gen) w
                      | _ \<Rightarrow> (Inl (Raised ''TypeError''), w))
                   else
                     (case func of
                        Coroutine_function c \<Rightarrow>
                          run_until_complete loop (await_coroutine (c args kwargs)) w
                      | _ \<Rightarrow> (Inl (Raised ''TypeError''), w)))"

definition pytest_fixture_setup :: "fixturedef \<Rightarrow> fixturedef" where
  "pytest_fixture_setup fixturedef =
     (let func = fd_func fixturedef
      in if \<not> isasyncgenfunction func \<and> \<not> iscoroutinefunction func then fixturedef
         else
           let is_async_gen = isasyncgenfunction func;
               strip_request = (''request'' \<notin> set (fd_argnames fixturedef));
               fixturedef =
                 (if strip_request
                  then fixturedef\<lparr>fd_argnames := fd_argnames fixturedef @ [''request'']\<rparr>
                  else fixturedef)
           in fixturedef\<lparr>fd_func := Wrapper is_async_gen strip_request func\<rparr>)"

subsection \<open>The factories \<^verbatim>\<open>test_server\<close>, \<^verbatim>\<open>raw_test_server\<close> and \<^verbatim>\<open>test_client\<close>\<close>

text \<open>
  Servers and clients are the constructor calls that made them, with the number of the
  object: \<open>TestServer n app kwargs\<close> is the \<open>n\<close>-th object, made by
  \<^verbatim>\<open>TestServer(app, **kwargs)\<close>. Both server classes derive from
  \<^verbatim>\<open>BaseTestServer\<close>.
\<close>

type_synonym kwargs = "(string \<times> val) list"

datatype server = TestServer nat string kwargs | RawTestServer nat string kwargs

datatype client = TestClient nat server kwargs

fun server_id :: "server \<Rightarrow> nat" where
  "server_id (TestServer n app kw) = n"
| "server_id (RawTestServer n handler kw) = n"

fun client_id :: "client \<Rightarrow> nat" where
  "client_id (TestClient n server kw) = n"

text \<open>
  Modelled from the spec: the classes \<^verbatim>\<open>TestServer\<close>, \<^verbatim>\<open>RawTestServer\<close>
  and \<^verbatim>\<open>TestClient\<close> with their \<^verbatim>\<open>start_server\<close> and \<^verbatim>\<open>close\<close>
  are imported from \<^verbatim>\<open>test_utils\<close>, which is not among the sources. By section 6
  they are opaque objects that can be constructed, started and closed. What these calls
  do is a parameter: for the object of each number, whether constructing it, starting
  it and closing it raises, and what. A constructor that returns takes the next object
  number; a start or a close that returns is the event that it happened.
\<close>

record faults =
  construct_raises :: "nat \<Rightarrow> exn option"
  start_raises :: "nat \<Rightarrow> exn option"
  close_raises :: "nat \<Rightarrow> exn option"

definition construct :: "faults \<Rightarrow> world \<Rightarrow> (exn + nat) \<times> world" where
  "construct ext w =
     (case construct_raises ext (next_id w) of
        Some e \<Rightarrow> (Inl e, w)
      | None \<Rightarrow> (Inr (next_id w), w\<lparr>next_id := Suc (next_id w)\<rparr>))"

definition start_server :: "faults \<Rightarrow> nat \<Rightarrow> unit awaitable" where
  "start_server ext n w =
     (case start_raises ext n of
        Some e \<Rightarrow> (Inl e, w)
      | None \<Rightarrow> (Inr (), w\<lparr>events := events w @ [Started n]\<rparr>))"

definition close :: "faults \<Rightarrow> nat \<Rightarrow> unit awaitable" where
  "close ext n w =
     (case close_raises ext n of
        Some e \<Rightarrow> (Inl e, w)
      | None \<Rightarrow> (Inr (), w\<lparr>events := events w @ [Closed n]\<rparr>))"

text \<open>
  A call \<^verbatim>\<open>f(..., loop=loop, **kwargs)\<close> raises \<^verbatim>\<open>TypeError\<close> before
  \<open>f\<close> runs when \<open>kwargs\<close> has the key \<open>loop\<close> itself.
\<close>

definition has_key :: "string \<Rightarrow> kwargs \<Rightarrow> bool" where
  "has_key k kw = (k \<in> set (map fst kw))"

text \<open>
  The three copies of \<^verbatim>\<open>finalize\<close> differ in the name of the list only:
  \<^verbatim>\<open>while servers: await servers.pop().close()\<close>. The entry is popped before it
  is closed, and a \<^verbatim>\<open>close\<close> that raises ends the loop with that exception. The
  list is the closure's: the coroutine's outcome comes with the list as it is then.
  \<open>ident\<close> reads an entry's number.
\<close>

function finalize ::
  "faults \<Rightarrow> ('e \<Rightarrow> nat) \<Rightarrow> 'e list \<Rightarrow> world \<Rightarrow> ((exn + unit) \<times> 'e list) \<times> world" where
  "finalize ext ident entries w =
     (if entries \<noteq> [] then
        (case close ext (ident (last entries)) w of
           (Inl e, w) \<Rightarrow> ((Inl e, butlast entries), w)
         | (Inr u, w) \<Rightarrow> finalize ext ident (butlast entries) w)
      else ((Inr (), entries), w))"
  by pat_completeness auto
termination
  by (relation "measure (\<lambda>(ext, ident, entries, w). length entries)") auto

declare finalize.simps [simp del]

text \<open>
  \<^verbatim>\<open>loop.run_until_complete(finalize())\<close>, for a coroutine that works on the
  closure's list: when the loop cannot run it the list is as it was.
\<close>

definition run_closure ::
  "val \<Rightarrow> ('e list \<Rightarrow> world \<Rightarrow> ((exn + 'a) \<times> 'e list) \<times> world) \<Rightarrow> 'e list \<Rightarrow> world
     \<Rightarrow> ((exn + 'a) \<times> 'e list) \<times> world" where
  "run_closure loop co entries w =
     (case run_until_complete loop
             (\<lambda>w. case co entries w of ((r, entries), w) \<Rightarrow> (Inr (r, entries), w)) w of
        (Inl e, w) \<Rightarrow> ((Inl e, entries), w)
      | (Inr (r, entries), w) \<Rightarrow> ((r, entries), w))"

text \<open>
  A factory is a fixture with a \<^verbatim>\<open>yield\<close>: pytest runs it to the \<^verbatim>\<open>yield\<close>
  before the test, hands the test the function \<^verbatim>\<open>go\<close>, and runs the rest after
  the test, passed or failed. Of the test the fixture sees the calls of \<^verbatim>\<open>go\<close>
  it made, in their order; \<open>run_calls\<close> makes them, threading the closure's list, and
  gives what each call returned or raised.
\<close>

fun run_calls ::
  "('c \<Rightarrow> 'e list \<Rightarrow> world \<Rightarrow> ((exn + 'e) \<times> 'e list) \<times> world) \<Rightarrow> 'c list \<Rightarrow> 'e list \<Rightarrow> world
     \<Rightarrow> ((exn + 'e) list \<times> 'e list) \<times> world" where
  "run_calls go [] entries w = (([], entries), w)"
| "run_calls go (c # cs) entries w =
     (case go c entries w of
        ((r, entries), w) \<Rightarrow>
          (case run_calls go cs entries w of
             ((rs, entries), w) \<Rightarrow> ((r # rs, entries), w)))"

text \<open>
  \<^verbatim>\<open>go(app, *, port=None, **kwargs)\<close> of \<^verbatim>\<open>test_server\<close>: the server is
  appended when \<^verbatim>\<open>await server.start_server(loop=loop, **kwargs)\<close> has returned.
\<close>

definition test_server_go ::
  "faults \<Rightarrow> val \<Rightarrow> string \<times> val \<times> kwargs \<Rightarrow> server list \<Rightarrow> world
     \<Rightarrow> ((exn + server) \<times> server list) \<times> world" where
  "test_server_go ext loop call servers w =
     (case call of
        (app, port, kwargs) \<Rightarrow>
          (case construct ext w of
             (Inl e, w) \<Rightarrow> ((Inl e, servers), w)
           | (Inr n, w) \<Rightarrow>
               let server = TestServer n app [(''port'', port)]
               in if has_key ''loop'' kwargs then ((Inl (Multiple_values ''loop''), servers), w)
                  else
                    (case start_server ext n w of
                       (Inl e, w) \<Rightarrow> ((Inl e, servers), w)
                     | (Inr u, w) \<Rightarrow> ((Inr server, servers @ [server]), w))))"

text \<open>
  The fixture gives what the calls of \<^verbatim>\<open>go\<close> returned or raised, what the
  teardown returned or raised, and the list after the teardown.
\<close>

definition test_server ::
  "faults \<Rightarrow> val \<Rightarrow> (string \<times> val \<times> kwargs) list \<Rightarrow> world
     \<Rightarrow> ((exn + server) list \<times> (exn + unit) \<times> server list) \<times> world" where
  "test_server ext loop calls w =
     (let servers = [];
          ((results, servers), w) = run_calls (test_server_go ext loop) calls servers w;
          ((r, servers), w) = run_closure loop (finalize ext server_id) servers w
      in ((results, r, servers), w))"

text \<open>\<^verbatim>\<open>go(handler, *, port=None, **kwargs)\<close> of \<^verbatim>\<open>raw_test_server\<close>.\<close>

definition raw_test_server_go ::
  "faults \<Rightarrow> val \<Rightarrow> string \<times> val \<times> kwargs \<Rightarrow> server list \<Rightarrow> world
     \<Rightarrow> ((exn + server) \<times> server list) \<times> world" where
  "raw_test_server_go ext loop call servers w =
     (case call of
        (handler, port, kwargs) \<Rightarrow>
          (case construct ext w of
             (Inl e, w) \<Rightarrow> ((Inl e, servers), w)
           | (Inr n, w) \<Rightarrow>
               let server = RawTestServer n handler [(''port'', port)]
               in if has_key ''loop'' kwargs then ((Inl (Multiple_values ''loop''), servers), w)
                  else
                    (case start_server ext n w of
                       (Inl e, w) \<Rightarrow> ((Inl e, servers), w)
                     | (Inr u, w) \<Rightarrow> ((Inr server, servers @ [server]), w))))"

definition raw_test_server ::
  "faults \<Rightarrow> val \<Rightarrow> (string \<times> val \<times> kwargs) list \<Rightarrow> world
     \<Rightarrow> ((exn + server) list \<times> (exn + unit) \<times> server list) \<times> world" where
  "raw_test_server ext loop calls w =
     (let servers = [];
          ((results, servers), w) = run_calls (raw_test_server_go ext loop) calls servers w;
          ((r, servers), w) = run_closure loop (finalize ext server_id) servers w
      in ((results, r, servers), w))"

text \<open>
  The first argument of the client factory, by the two \<^verbatim>\<open>isinstance\<close> tests the
  source makes: an \<^verbatim>\<open>Application\<close> (by name); a \<^verbatim>\<open>BaseTestServer\<close>; a
  callable that is neither, with the name of its class and what calling it gives; or
  an object that is none of these, with the name of its class.
\<close>

datatype param =
    Application_obj string
  | Server_obj server
  | Callable_obj string "val \<Rightarrow> val list \<Rightarrow> kwargs \<Rightarrow> exn + param"
  | Other_obj string

text \<open>
  \<^verbatim>\<open>go(__param, *args, server_kwargs=None, **kwargs)\<close> of \<^verbatim>\<open>test_client\<close>, in
  the source's steps: the callable or the assertion first, then the construction, then
  the start. \<^verbatim>\<open>loop=loop\<close> is written as the first keyword argument of either
  constructor; \<^verbatim>\<open>server_kwargs or {}\<close> turns \<^verbatim>\<open>None\<close> into the empty
  dictionary.
\<close>

definition resolve_param ::
  "val \<Rightarrow> param \<Rightarrow> val list \<Rightarrow> kwargs \<Rightarrow> exn + param \<times> kwargs" where
  "resolve_param loop param args kwargs =
     (case param of
        Callable_obj cls f \<Rightarrow>
          (case f loop args kwargs of
             Inl e \<Rightarrow> Inl e
           | Inr param \<Rightarrow> Inr (param, []))
      | _ \<Rightarrow>
          if args \<noteq> [] then Inl (AssertionError ''args should be empty'')
          else Inr (param, kwargs))"

text \<open>\<^verbatim>\<open>TestClient(server, loop=loop, **kwargs)\<close>.\<close>

definition new_client :: "faults \<Rightarrow> val \<Rightarrow> server \<Rightarrow> kwargs \<Rightarrow> world \<Rightarrow> (exn + client) \<times> world" where
  "new_client ext loop server kwargs w =
     (if has_key ''loop'' kwargs then (Inl (Multiple_values ''loop''), w)
      else
        (case construct ext w of
           (Inl e, w) \<Rightarrow> (Inl e, w)
         | (Inr n, w) \<Rightarrow> (Inr (TestClient n server ((''loop'', loop) # kwargs)), w)))"

definition make_client ::
  "faults \<Rightarrow> val \<Rightarrow> param \<Rightarrow> kwargs option \<Rightarrow> kwargs \<Rightarrow> world \<Rightarrow> (exn + client) \<times> world" where
  "make_client ext loop param server_kwargs kwargs w =
     (case param of
        Application_obj app \<Rightarrow>
          let server_kwargs = (case server_kwargs of None \<Rightarrow> [] | Some kw \<Rightarrow> kw)
          in if has_key ''loop'' server_kwargs then (Inl (Multiple_values ''loop''), w)
             else
               (case construct ext w of
                  (Inl e, w) \<Rightarrow> (Inl e, w)
                | (Inr n, w) \<Rightarrow>
                    let server = TestServer n app ((''loop'', loop) # server_kwargs)
                    in new_client ext loop server kwargs w)
      | Server_obj server \<Rightarrow> new_client ext loop server kwargs w
      | Callable_obj cls f \<Rightarrow> (Inl (Unknown_argument_type cls), w)
      | Other_obj cls \<Rightarrow> (Inl (Unknown_argument_type cls), w))"

definition test_client_go ::
  "faults \<Rightarrow> val \<Rightarrow> param \<times> val list \<times> kwargs option \<times> kwargs \<Rightarrow> client list \<Rightarrow> world
     \<Rightarrow> ((exn + client) \<times> client list) \<times> world" where
  "test_client_go ext loop call clients w =
     (case call of
        (param, args, server_kwargs, kwargs) \<Rightarrow>
          (case resolve_param loop param args kwargs of
             Inl e \<Rightarrow> ((Inl e, clients), w)
           | Inr (param, kwargs) \<Rightarrow>
               (case make_client ext loop param server_kwargs kwargs w of
                  (Inl e, w) \<Rightarrow> ((Inl e, clients), w)
                | (Inr client, w) \<Rightarrow>
                    (case start_server ext (client_id client) w of
                       (Inl e, w) \<Rightarrow> ((Inl e, clients), w)
                     | (Inr u, w) \<Rightarrow> ((Inr client, clients @ [client]), w)))))"

definition test_client ::
  "faults \<Rightarrow> val \<Rightarrow> (param \<times> val list \<times> kwargs option \<times> kwargs) list \<Rightarrow> world
     \<Rightarrow> ((exn + client) list \<times> (exn + unit) \<times> client list) \<times> world" where
  "test_client ext loop calls w =
     (let clients = [];
          ((results, clients), w) = run_calls (test_client_go ext loop) calls clients w;
          ((r, clients), w) = run_closure loop (finalize ext client_id) clients w
      in ((results, r, clients), w))"

text \<open>The entries that a test's calls of \<^verbatim>\<open>go\<close> returned, in the order of the calls.\<close>

fun returned :: "(exn + 'a) list \<Rightarrow> 'a list" where
  "returned [] = []"
| "returned (Inl e # rs) = returned rs"
| "returned (Inr x # rs) = x # returned rs"

text \<open>The calls into \<^verbatim>\<open>test_utils\<close> when none of them raises.\<close>

definition no_faults :: faults where
  "no_faults =
     \<lparr>construct_raises = (\<lambda>n. None), start_raises = (\<lambda>n. None), close_raises = (\<lambda>n. None)\<rparr>"

section \<open>Properties\<close>

subsection \<open>Loop selection\<close>

lemma select_factories_drops_soft_unavailable:
  "select_factories avail names factories =
   select_factories avail
     (filter (\<lambda>n. \<not> (endswith_qmark n \<and> map_of avail (strip_space_qmark n) = None)) names)
     factories"
  by (induction names arbitrary: factories) (auto simp: Let_def split: option.splits)

lemma all_is_shorthand:
  "pytest_generate_tests uvloop tokio (mf\<lparr>option_loop := ''all''\<rparr>) =
   pytest_generate_tests uvloop tokio (mf\<lparr>option_loop := ''pyloop,uvloop?,tokio?''\<rparr>)"
  by (simp add: pytest_generate_tests_def)

lemma split_pyloop_uvloop: "split_comma ''pyloop,uvloop?'' = [''pyloop'', ''uvloop?'']"
  by simp

lemma pyloop_uvloop_without_uvloop:
  "select_factories (avail_factories False tokio) [''pyloop'', ''uvloop?''] [] =
     Inr [(''pyloop'', Asyncio_new_event_loop)]"
  by (cases tokio)
     (simp_all add: avail_factories_def Let_def endswith_qmark_def strip_space_qmark_def)

text \<open>
  C8. A name that ends in \<open>?\<close> and names no available loop is skipped: the outcome of
  the selection loop, error or dictionary, is the same as on the list without such names,
  from any state of \<open>factories\<close>. The value \<open>all\<close> is read as
  \<open>pyloop,uvloop?,tokio?\<close>. For a test that uses \<open>loop_factory\<close>, the value
  \<open>pyloop,uvloop?\<close> without uvloop gives one parameterization, pyloop.
\<close>

theorem soft_required_loops_are_skipped:
  "pytest_generate_tests uvloop tokio (mf\<lparr>option_loop := ''all''\<rparr>) =
     pytest_generate_tests uvloop tokio (mf\<lparr>option_loop := ''pyloop,uvloop?,tokio?''\<rparr>)
   \<and> select_factories avail names factories =
       select_factories avail
         (filter (\<lambda>n. \<not> (endswith_qmark n \<and> map_of avail (strip_space_qmark n) = None)) names)
         factories
   \<and> (''loop_factory'' \<in> set (mf_fixturenames mf) \<longrightarrow>
        pytest_generate_tests False tokio (mf\<lparr>option_loop := ''pyloop,uvloop?''\<rparr>) =
          Inr (Some ([Asyncio_new_event_loop], [''pyloop''])))"
proof (intro conjI impI)
  show "pytest_generate_tests uvloop tokio (mf\<lparr>option_loop := ''all''\<rparr>) =
     pytest_generate_tests uvloop tokio (mf\<lparr>option_loop := ''pyloop,uvloop?,tokio?''\<rparr>)"
    by (rule all_is_shorthand)
  show "select_factories avail names factories =
       select_factories avail
         (filter (\<lambda>n. \<not> (endswith_qmark n \<and> map_of avail (strip_space_qmark n) = None)) names)
         factories"
    by (rule select_factories_drops_soft_unavailable)
  assume "''loop_factory'' \<in> set (mf_fixturenames mf)"
  then show "pytest_generate_tests False tokio (mf\<lparr>option_loop := ''pyloop,uvloop?''\<rparr>) =
          Inr (Some ([Asyncio_new_event_loop], [''pyloop'']))"
    by (simp add: pytest_generate_tests_def split_pyloop_uvloop pyloop_uvloop_without_uvloop
        del: split_comma.simps select_factories.simps)
qed

theorem soft_required_loops_are_skipped_witness:
  "''loop_factory'' \<in> set (mf_fixturenames \<lparr>mf_fixturenames = [''loop_factory''], option_loop = ''all''\<rparr>)
   \<and> pytest_generate_tests False False
         \<lparr>mf_fixturenames = [''loop_factory''], option_loop = ''pyloop,uvloop?''\<rparr> =
       Inr (Some ([Asyncio_new_event_loop], [''pyloop'']))
   \<and> pytest_generate_tests False False
         \<lparr>mf_fixturenames = [''loop_factory''], option_loop = ''all''\<rparr> =
       Inr (Some ([Asyncio_new_event_loop], [''pyloop'']))
   \<and> select_factories (avail_factories False False) [''pyloop'', ''uvloop?'', ''tokio?''] [] =
       select_factories (avail_factories False False) [''pyloop''] []"
  using soft_required_loops_are_skipped
    [where uvloop = False and tokio = False and avail = "avail_factories False False"
       and mf = "\<lparr>mf_fixturenames = [''loop_factory''], option_loop = ''all''\<rparr>"
       and names = "[''pyloop'', ''uvloop?'', ''tokio?'']" and factories = "[]"]
  by (simp add: pytest_generate_tests_def avail_factories_def Let_def endswith_qmark_def
      strip_space_qmark_def)

text \<open>
  A name without the \<open>?\<close> that names no available loop stops the selection: the
  error carries the first such name, stripped.
\<close>

lemma required_unknown_name_fails:
  assumes "\<exists>n \<in> set names. \<not> endswith_qmark n \<and> map_of avail (strip_space_qmark n) = None"
  shows "\<exists>n keys. n \<in> set names \<and> \<not> endswith_qmark n
           \<and> map_of avail (strip_space_qmark n) = None
           \<and> select_factories avail names factories = Inl (Unknown_loop (strip_space_qmark n) keys)"
  using assms
proof (induction names arbitrary: factories)
  case Nil
  then show ?case by simp
next
  case (Cons a names)
  show ?case
  proof (cases "map_of avail (strip_space_qmark a)")
    case None
    show ?thesis
    proof (cases "endswith_qmark a")
      case True
      with None Cons.prems have
        "\<exists>n \<in> set names. \<not> endswith_qmark n \<and> map_of avail (strip_space_qmark n) = None"
        by auto
      from Cons.IH [OF this, of factories] True None show ?thesis
        by (auto simp: Let_def)
    next
      case False
      with None show ?thesis
        by (auto simp: Let_def intro!: exI [of _ a])
    qed
  next
    case (Some factory)
    with Cons.prems have
      "\<exists>n \<in> set names. \<not> endswith_qmark n \<and> map_of avail (strip_space_qmark n) = None"
      by auto
    from Cons.IH [OF this, of "AList.update (strip_space_qmark a) factory factories"] Some
    show ?thesis
      by (auto simp: Let_def)
  qed
qed

text \<open>
  C3. The error for an unknown required name carries the name, and after
  \<open>available loops:\<close> the keys of \<open>factories\<close>, the loops selected so far, not the
  keys of \<open>avail_factories\<close>: for \<open>bogus\<close> alone the list is empty although pyloop is
  available, and for \<open>uvloop,bogus\<close> with all three loops installed it is \<open>uvloop\<close>.
\<close>

theorem unknown_loop_error_lists_selected_loops:
  "pytest_generate_tests False False
       \<lparr>mf_fixturenames = [''loop_factory''], option_loop = ''bogus''\<rparr> =
     Inl (Unknown_loop ''bogus'' [])
   \<and> map fst (avail_factories False False) = [''pyloop'']
   \<and> pytest_generate_tests True True
       \<lparr>mf_fixturenames = [''loop_factory''], option_loop = ''uvloop,bogus''\<rparr> =
     Inl (Unknown_loop ''bogus'' [''uvloop''])
   \<and> map fst (avail_factories True True) = [''pyloop'', ''uvloop'', ''tokio'']"
  by (simp add: pytest_generate_tests_def avail_factories_def Let_def endswith_qmark_def
      strip_space_qmark_def)

subsection \<open>Running an asynchronous test\<close>


lemma run_body_in_loop_context:
  assumes "\<forall>s. existing \<noteq> VStr s"
  shows "\<exists>w'. passthrough_loop_context existing fast
                (\<lambda>loop. run_until_complete loop (await_coroutine co)) w = (co_result co, w')
           \<and> warnings_log w' = warnings_log w @ co_warnings co"
  using assms
  by (cases existing; cases "co_result co")
     (simp_all add: passthrough_loop_context_def run_until_complete_def await_coroutine_def
        setup_test_loop_def teardown_test_loop_def)

lemma existing_loop_not_str:
  assumes "\<forall>s. map_of fa ''loop'' \<noteq> Some (VStr s)"
  shows "\<forall>s. (case map_of fa ''loop'' of None \<Rightarrow> VNone | Some v \<Rightarrow> v) \<noteq> VStr s"
  using assms by (auto split: option.splits)



text \<open>
  C10. When the body of such a test raises, the call raises that exception, whatever
  warnings were recorded: the check for \<^verbatim>\<open>RuntimeWarning\<close>s stands after the
  \<^verbatim>\<open>yield\<close> and is not reached.
\<close>

theorem test_exception_is_not_replaced_by_warnings:
  assumes "is_coroutine_function item"
    and "\<forall>s. map_of (funcargs item) ''loop'' \<noteq> Some (VStr s)"
    and "testargs_of (funcargs item) (argnames item) = Inr testargs"
    and "co_result (obj item testargs) = Inl e"
  shows "fst (pytest_pyfunc_call item w) = Inl e"
proof -
  obtain w' where
    scope: "passthrough_loop_context
              (case map_of (funcargs item) ''loop'' of None \<Rightarrow> VNone | Some v \<Rightarrow> v)
              (option_fast item)
              (\<lambda>loop. run_until_complete loop (await_coroutine (obj item testargs)))
              (w\<lparr>warnings_log := []\<rparr>) = (Inl e, w')"
    using run_body_in_loop_context [OF existing_loop_not_str [OF assms(2)],
        of "option_fast item" "obj item testargs" "w\<lparr>warnings_log := []\<rparr>"] assms(4)
    by auto
  show ?thesis
    using assms(1,3) scope
    by (simp add: pytest_pyfunc_call_def runtime_warning_context_def)
qed

theorem test_exception_is_not_replaced_by_warnings_witness:
  "fst (pytest_pyfunc_call
          \<lparr>option_fast = False, is_coroutine_function = True,
             funcargs = [], argnames = [],
             obj = (\<lambda>testargs.
               \<lparr>co_warnings =
                  [\<lparr>category = RuntimeWarning, filename = ''test_a.py'', lineno = 12,
                      message = ''coroutine was never awaited''\<rparr>],
                  co_result = Inl (Raised ''AssertionError in the test'')\<rparr>)\<rparr>
          \<lparr>events = [], next_id = 0, warnings_log = [], gens = (\<lambda>n. []), finalizers = []\<rparr>) =
   Inl (Raised ''AssertionError in the test'')"
  using test_exception_is_not_replaced_by_warnings
    [where item = "\<lparr>option_fast = False, is_coroutine_function = True,
             funcargs = [], argnames = [],
             obj = (\<lambda>testargs.
               \<lparr>co_warnings =
                  [\<lparr>category = RuntimeWarning, filename = ''test_a.py'', lineno = 12,
                      message = ''coroutine was never awaited''\<rparr>],
                  co_result = Inl (Raised ''AssertionError in the test'')\<rparr>)\<rparr>"
      and testargs = "[]" and e = "Raised ''AssertionError in the test''"
      and w = "\<lparr>events = [], next_id = 0, warnings_log = [], gens = (\<lambda>n. []), finalizers = []\<rparr>"]
  by simp

text \<open>
  C1. A test with no \<open>loop\<close> argument, so that the hook makes the loop itself.
  When the body raises \<open>e\<close>, the hook raises \<open>e\<close> and the events it adds are the
  setup of the loop and the run of the body: \<^verbatim>\<open>teardown_test_loop\<close> is not called.
  When the body returns, the teardown is the last event.
\<close>

theorem created_loop_is_not_released_when_the_test_raises:
  "pytest_pyfunc_call
     \<lparr>option_fast = fast, is_coroutine_function = True, funcargs = [], argnames = [],
        obj = (\<lambda>testargs. \<lparr>co_warnings = ws, co_result = Inl e\<rparr>)\<rparr> w =
   (Inl e, w\<lparr>events := events w @ [Setup_test_loop (next_id w), Run_until_complete (next_id w)],
              next_id := Suc (next_id w)\<rparr>)
   \<and> pytest_pyfunc_call
     \<lparr>option_fast = fast, is_coroutine_function = True, funcargs = [], argnames = [],
        obj = (\<lambda>testargs. \<lparr>co_warnings = [], co_result = Inr v\<rparr>)\<rparr> w =
   (Inr (Some True),
    w\<lparr>events := events w @ [Setup_test_loop (next_id w), Run_until_complete (next_id w),
                             Teardown_test_loop (next_id w) fast],
       next_id := Suc (next_id w)\<rparr>)"
  by (simp add: pytest_pyfunc_call_def runtime_warning_context_def passthrough_loop_context_def
      run_until_complete_def await_coroutine_def setup_test_loop_def teardown_test_loop_def)

text \<open>
  The context manager by cases: a loop passed in is handed to the scope and nothing
  else happens; a loop made here is torn down after a scope that returns, and left as
  it is after a scope that raises.
\<close>

lemma passthrough_supplied_loop:
  "passthrough_loop_context (VLoop l) fast scope w = scope (VLoop l) w"
  by (simp add: passthrough_loop_context_def)

lemma passthrough_created_loop_returns:
  assumes "\<not> truthy existing"
    and "scope (VLoop (next_id w)) (snd (setup_test_loop w)) = (Inr x, w')"
  shows "passthrough_loop_context existing fast scope w =
           (Inr x, teardown_test_loop (next_id w) fast w')"
  using assms by (simp add: passthrough_loop_context_def setup_test_loop_def)

lemma passthrough_created_loop_raises:
  assumes "\<not> truthy existing"
    and "scope (VLoop (next_id w)) (snd (setup_test_loop w)) = (Inl e, w')"
  shows "passthrough_loop_context existing fast scope w = (Inl e, w')"
  using assms by (simp add: passthrough_loop_context_def setup_test_loop_def)

text \<open>
  C6. The same at the context manager: with no loop passed in it makes one, and tears
  it down when the scope returns, but not when the scope raises.
\<close>

theorem passthrough_skips_teardown_when_scope_raises:
  "passthrough_loop_context VNone fast
     (\<lambda>loop. run_until_complete loop (await_coroutine \<lparr>co_warnings = [], co_result = Inl e\<rparr>)) w =
   (Inl e, w\<lparr>events := events w @ [Setup_test_loop (next_id w), Run_until_complete (next_id w)],
              next_id := Suc (next_id w)\<rparr>)
   \<and> passthrough_loop_context VNone fast
     (\<lambda>loop. run_until_complete loop (await_coroutine \<lparr>co_warnings = [], co_result = Inr v\<rparr>)) w =
   (Inr v, w\<lparr>events := events w @ [Setup_test_loop (next_id w), Run_until_complete (next_id w),
                                     Teardown_test_loop (next_id w) fast],
              next_id := Suc (next_id w)\<rparr>)"
  by (simp add: passthrough_loop_context_def
      run_until_complete_def await_coroutine_def setup_test_loop_def teardown_test_loop_def)

subsection \<open>Asynchronous fixtures\<close>

text \<open>
  C5. \<^verbatim>\<open>pytest_fixture_setup\<close> replaces every asynchronous fixture function, of
  either kind, by the wrapper and makes \<open>request\<close> one of its arguments. Called with
  a request whose \<^verbatim>\<open>fixturenames\<close> do not include \<open>loop\<close>, the wrapper raises
  the exception with its message and leaves the world as it was: the fixture function
  has not been called, nothing has run on any loop, no finalizer is registered.
\<close>

theorem async_fixture_without_loop_fails:
  "(isasyncgenfunction (fd_func fd) \<or> iscoroutinefunction (fd_func fd) \<longrightarrow>
      fd_func (pytest_fixture_setup fd) =
        Wrapper (isasyncgenfunction (fd_func fd)) (''request'' \<notin> set (fd_argnames fd)) (fd_func fd)
      \<and> ''request'' \<in> set (fd_argnames (pytest_fixture_setup fd)))
   \<and> (map_of kwargs ''request'' = Some (Request request) \<and> ''loop'' \<notin> set (fixturenames request) \<longrightarrow>
      wrapper is_async_gen strip_request func args kwargs w =
        (Inl (Exception (''Asynchronous fixtures must depend on the 'loop' fixture or ''
                @ ''be used in tests depending from it.'')), w))"
proof (intro conjI impI)
  assume "isasyncgenfunction (fd_func fd) \<or> iscoroutinefunction (fd_func fd)"
  then show "fd_func (pytest_fixture_setup fd) =
      Wrapper (isasyncgenfunction (fd_func fd)) (''request'' \<notin> set (fd_argnames fd)) (fd_func fd)"
    by (auto simp: pytest_fixture_setup_def Let_def)
next
  assume "isasyncgenfunction (fd_func fd) \<or> iscoroutinefunction (fd_func fd)"
  then show "''request'' \<in> set (fd_argnames (pytest_fixture_setup fd))"
    by (auto simp: pytest_fixture_setup_def Let_def)
next
  assume "map_of kwargs ''request'' = Some (Request request) \<and> ''loop'' \<notin> set (fixturenames request)"
  then show "wrapper is_async_gen strip_request func args kwargs w =
        (Inl (Exception (''Asynchronous fixtures must depend on the 'loop' fixture or ''
                @ ''be used in tests depending from it.'')), w)"
    by (simp add: wrapper_def Let_def)
qed

theorem async_fixture_without_loop_fails_witness:
  "fd_func (pytest_fixture_setup
       \<lparr>fd_func = Coroutine_function (\<lambda>args kwargs. \<lparr>co_warnings = [], co_result = Inr (VStr ''db'')\<rparr>),
          fd_argnames = [''tmpdir'']\<rparr>) =
     Wrapper False True
       (Coroutine_function (\<lambda>args kwargs. \<lparr>co_warnings = [], co_result = Inr (VStr ''db'')\<rparr>))
   \<and> ''request'' \<in> set (fd_argnames (pytest_fixture_setup
       \<lparr>fd_func = Coroutine_function (\<lambda>args kwargs. \<lparr>co_warnings = [], co_result = Inr (VStr ''db'')\<rparr>),
          fd_argnames = [''tmpdir'']\<rparr>))
   \<and> wrapper False True
       (Coroutine_function (\<lambda>args kwargs. \<lparr>co_warnings = [], co_result = Inr (VStr ''db'')\<rparr>))
       []
       [(''tmpdir'', Value (VStr ''/tmp/x'')),
        (''request'', Request \<lparr>fixturenames = [''tmpdir'', ''db''],
                                 getfixturevalue = (\<lambda>name. Inl (Raised ''fixture lookup failed''))\<rparr>)]
       \<lparr>events = [], next_id = 0, warnings_log = [], gens = (\<lambda>n. []), finalizers = []\<rparr> =
     (Inl (Exception (''Asynchronous fixtures must depend on the 'loop' fixture or ''
                @ ''be used in tests depending from it.'')),
      \<lparr>events = [], next_id = 0, warnings_log = [], gens = (\<lambda>n. []), finalizers = []\<rparr>)"
  using async_fixture_without_loop_fails
    [where fd = "\<lparr>fd_func = Coroutine_function (\<lambda>args kwargs. \<lparr>co_warnings = [], co_result = Inr (VStr ''db'')\<rparr>),
          fd_argnames = [''tmpdir'']\<rparr>"
       and kwargs = "[(''tmpdir'', Value (VStr ''/tmp/x'')),
        (''request'', Request \<lparr>fixturenames = [''tmpdir'', ''db''],
                                 getfixturevalue = (\<lambda>name. Inl (Raised ''fixture lookup failed''))\<rparr>)]"
       and request = "\<lparr>fixturenames = [''tmpdir'', ''db''],
                                 getfixturevalue = (\<lambda>name. Inl (Raised ''fixture lookup failed''))\<rparr>"
       and is_async_gen = False and strip_request = True
       and func = "Coroutine_function (\<lambda>args kwargs. \<lparr>co_warnings = [], co_result = Inr (VStr ''db'')\<rparr>)"
       and args = "[]"
       and w = "\<lparr>events = [], next_id = 0, warnings_log = [], gens = (\<lambda>n. []), finalizers = []\<rparr>"]
  by simp

lemma wrapper_async_gen:
  assumes "map_of kwargs ''request'' = Some (Request request)"
    and "''loop'' \<in> set (fixturenames request)"
    and "getfixturevalue request ''loop'' = Inr (VLoop l)"
  shows "wrapper True strip_request (Async_gen_function g) args kwargs w =
     (fst (advance (g args (if strip_request then AList.delete ''request'' kwargs else kwargs))),
      w\<lparr>events := events w @ [Run_until_complete l],
         next_id := Suc (next_id w),
         gens := (gens w)(next_id w :=
            snd (advance (g args (if strip_request then AList.delete ''request'' kwargs else kwargs)))),
         finalizers := finalizers w @ [(VLoop l, next_id w)]\<rparr>)"
  using assms
  by (simp add: wrapper_def Let_def run_until_complete_def anext_def split: prod.splits)

lemma finalizer_step:
  "finalizer (VLoop l) gen w =
     ((case gens w gen of
         [] \<Rightarrow> Inr VNone
       | Yield v # rest \<Rightarrow> Inr v
       | Raise e # rest \<Rightarrow>
           Inl (if e = StopAsyncIteration
                then RuntimeError ''async generator raised StopAsyncIteration'' else e)),
      w\<lparr>events := events w @ [Run_until_complete l],
         gens := (gens w)(gen := snd (advance (gens w gen)))\<rparr>)"
  by (cases "gens w gen" rule: advance.cases)
     (simp_all add: finalizer_def run_until_complete_def anext_def)

text \<open>
  C2, as the code has it. An asynchronous generator fixture whose first step yields
  \<open>v\<close>: the wrapper returns \<open>v\<close> and registers one finalizer, for the loop of the
  \<open>loop\<close> fixture and the new generator. The finalizer takes one more step of that
  generator on that loop. When the generator ends there, the finalizer returns
  \<^verbatim>\<open>None\<close>; when it raises, the finalizer raises the same; when it yields a second
  value, the finalizer returns that value and raises nothing.
\<close>

theorem async_gen_finalizer_outcomes:
  assumes "map_of kwargs ''request'' = Some (Request request)"
    and "''loop'' \<in> set (fixturenames request)"
    and "getfixturevalue request ''loop'' = Inr (VLoop l)"
    and "g args (if strip_request then AList.delete ''request'' kwargs else kwargs) = Yield v # rest"
    and "wrapper True strip_request (Async_gen_function g) args kwargs w = (r, w1)"
  shows "r = Inr v
    \<and> finalizers w1 = finalizers w @ [(VLoop l, next_id w)]
    \<and> snd (finalizer (VLoop l) (next_id w) w1) =
        w1\<lparr>events := events w1 @ [Run_until_complete l],
           gens := (gens w1)(next_id w := snd (advance rest))\<rparr>
    \<and> fst (finalizer (VLoop l) (next_id w) w1) =
        (case rest of
           [] \<Rightarrow> Inr VNone
         | Yield v2 # rest' \<Rightarrow> Inr v2
         | Raise e # rest' \<Rightarrow>
             Inl (if e = StopAsyncIteration
                  then RuntimeError ''async generator raised StopAsyncIteration'' else e))"
  using assms(4,5) wrapper_async_gen [OF assms(1,2,3), of strip_request g args w]
  by (auto simp: finalizer_step)

theorem async_gen_finalizer_outcomes_witness:
  "fst (wrapper True True
          (Async_gen_function (\<lambda>args kwargs. [Yield (VStr ''db''), Raise (Raised ''disk full'')]))
          []
          [(''request'', Request \<lparr>fixturenames = [''loop''],
                                   getfixturevalue = (\<lambda>name. Inr (VLoop 5))\<rparr>)]
          \<lparr>events = [], next_id = 0, warnings_log = [], gens = (\<lambda>n. []), finalizers = []\<rparr>) =
     Inr (VStr ''db'')
   \<and> fst (finalizer (VLoop 5) 0
        (snd (wrapper True True
          (Async_gen_function (\<lambda>args kwargs. [Yield (VStr ''db''), Raise (Raised ''disk full'')]))
          []
          [(''request'', Request \<lparr>fixturenames = [''loop''],
                                   getfixturevalue = (\<lambda>name. Inr (VLoop 5))\<rparr>)]
          \<lparr>events = [], next_id = 0, warnings_log = [], gens = (\<lambda>n. []), finalizers = []\<rparr>))) =
     Inl (Raised ''disk full'')"
  using async_gen_finalizer_outcomes
    [where kwargs = "[(''request'', Request \<lparr>fixturenames = [''loop''],
                                   getfixturevalue = (\<lambda>name. Inr (VLoop 5))\<rparr>)]"
       and request = "\<lparr>fixturenames = [''loop''], getfixturevalue = (\<lambda>name. Inr (VLoop 5))\<rparr>"
       and l = 5 and strip_request = True and args = "[]"
       and g = "\<lambda>args kwargs. [Yield (VStr ''db''), Raise (Raised ''disk full'')]"
       and v = "VStr ''db''" and rest = "[Raise (Raised ''disk full'')]"
       and w = "\<lparr>events = [], next_id = 0, warnings_log = [], gens = (\<lambda>n. []), finalizers = []\<rparr>"
       and r = "fst (wrapper True True
          (Async_gen_function (\<lambda>args kwargs. [Yield (VStr ''db''), Raise (Raised ''disk full'')]))
          []
          [(''request'', Request \<lparr>fixturenames = [''loop''],
                                   getfixturevalue = (\<lambda>name. Inr (VLoop 5))\<rparr>)]
          \<lparr>events = [], next_id = 0, warnings_log = [], gens = (\<lambda>n. []), finalizers = []\<rparr>)"
       and ?w1.0 = "snd (wrapper True True
          (Async_gen_function (\<lambda>args kwargs. [Yield (VStr ''db''), Raise (Raised ''disk full'')]))
          []
          [(''request'', Request \<lparr>fixturenames = [''loop''],
                                   getfixturevalue = (\<lambda>name. Inr (VLoop 5))\<rparr>)]
          \<lparr>events = [], next_id = 0, warnings_log = [], gens = (\<lambda>n. []), finalizers = []\<rparr>)"]
  by simp

text \<open>
  C2 as stated fails: for a generator that yields twice, the finalizer returns the second
  value, which is no exception; and when that value is \<^verbatim>\<open>None\<close> the finalizer's
  result is the one it has for a generator that ended as it should.
\<close>

theorem second_yield_is_returned_by_the_finalizer:
  "fst (finalizer (VLoop 5) 0
        (snd (wrapper True True
          (Async_gen_function (\<lambda>args kwargs. [Yield (VStr ''db''), Yield (VStr ''again'')]))
          []
          [(''request'', Request \<lparr>fixturenames = [''loop''],
                                   getfixturevalue = (\<lambda>name. Inr (VLoop 5))\<rparr>)]
          \<lparr>events = [], next_id = 0, warnings_log = [], gens = (\<lambda>n. []), finalizers = []\<rparr>))) =
     Inr (VStr ''again'')
   \<and> fst (finalizer (VLoop 5) 0
        (snd (wrapper True True
          (Async_gen_function (\<lambda>args kwargs. [Yield (VStr ''db''), Yield VNone]))
          []
          [(''request'', Request \<lparr>fixturenames = [''loop''],
                                   getfixturevalue = (\<lambda>name. Inr (VLoop 5))\<rparr>)]
          \<lparr>events = [], next_id = 0, warnings_log = [], gens = (\<lambda>n. []), finalizers = []\<rparr>))) =
     fst (finalizer (VLoop 5) 0
        (snd (wrapper True True
          (Async_gen_function (\<lambda>args kwargs. [Yield (VStr ''db'')]))
          []
          [(''request'', Request \<lparr>fixturenames = [''loop''],
                                   getfixturevalue = (\<lambda>name. Inr (VLoop 5))\<rparr>)]
          \<lparr>events = [], next_id = 0, warnings_log = [], gens = (\<lambda>n. []), finalizers = []\<rparr>)))"
  by (simp add: wrapper_def finalizer_def run_until_complete_def anext_def)

subsection \<open>The server and client factories\<close>

text \<open>
  The teardown loop on any list: it closes the entries from the last one on while
  \<^verbatim>\<open>close\<close> returns. When all return, the list ends empty. At the first
  \<^verbatim>\<open>close\<close> that raises it stops with that exception: the entry is off the
  list, the ones before it stay on it.
\<close>

lemma finalize_closes_while_ok:
  "finalize ext ident entries w =
     ((case dropWhile (\<lambda>e. close_raises ext (ident e) = None) (rev entries) of
         [] \<Rightarrow> (Inr (), [])
       | failing # earlier \<Rightarrow>
           ((case close_raises ext (ident failing) of None \<Rightarrow> Inr () | Some e \<Rightarrow> Inl e),
            rev earlier)),
      w\<lparr>events := events w
           @ map (\<lambda>e. Closed (ident e))
               (takeWhile (\<lambda>e. close_raises ext (ident e) = None) (rev entries))\<rparr>)"
proof (induction entries arbitrary: w rule: rev_induct)
  case Nil
  show ?case by (simp add: finalize.simps)
next
  case (snoc x xs)
  show ?case
  proof (cases "close_raises ext (ident x)")
    case None
    then show ?thesis
      by (subst finalize.simps) (simp add: snoc.IH close_def)
  next
    case (Some e)
    then show ?thesis
      by (subst finalize.simps) (simp add: close_def)
  qed
qed

lemma run_calls_tracks:
  assumes step: "\<And>c es w. case go c es w of
      ((r, es'), w') \<Rightarrow>
        next_id w \<le> next_id w'
        \<and> (\<exists>evs. events w' = events w @ evs \<and> (\<forall>n. Closed n \<notin> set evs))
        \<and> (case r of
             Inl x \<Rightarrow> es' = es
           | Inr e \<Rightarrow> es' = es @ [e] \<and> next_id w \<le> ident e \<and> ident e < next_id w')"
  shows "case run_calls go cs es w of
      ((rs, es'), w') \<Rightarrow>
        es' = es @ returned rs
        \<and> next_id w \<le> next_id w'
        \<and> (\<exists>evs. events w' = events w @ evs \<and> (\<forall>n. Closed n \<notin> set evs))
        \<and> distinct (map ident (returned rs))
        \<and> (\<forall>e \<in> set (returned rs). next_id w \<le> ident e \<and> ident e < next_id w')"
proof (induction cs arbitrary: es w)
  case Nil
  show ?case by simp
next
  case (Cons c cs)
  obtain r es1 w1 where g: "go c es w = ((r, es1), w1)"
    by (metis prod.exhaust)
  obtain rs es2 w2 where rc: "run_calls go cs es1 w1 = ((rs, es2), w2)"
    by (metis prod.exhaust)
  from step [where c = c and es = es and w = w] g have
    s1: "next_id w \<le> next_id w1"
    and s2: "\<exists>evs. events w1 = events w @ evs \<and> (\<forall>n. Closed n \<notin> set evs)"
    and s3: "case r of Inl x \<Rightarrow> es1 = es
             | Inr e \<Rightarrow> es1 = es @ [e] \<and> next_id w \<le> ident e \<and> ident e < next_id w1"
    by auto
  from Cons.IH [where es = es1 and w = w1] rc have
    i1: "es2 = es1 @ returned rs"
    and i2: "next_id w1 \<le> next_id w2"
    and i3: "\<exists>evs. events w2 = events w1 @ evs \<and> (\<forall>n. Closed n \<notin> set evs)"
    and i4: "distinct (map ident (returned rs))"
    and i5: "\<forall>e \<in> set (returned rs). next_id w1 \<le> ident e \<and> ident e < next_id w2"
    by auto
  from s2 i3 have ev: "\<exists>evs. events w2 = events w @ evs \<and> (\<forall>n. Closed n \<notin> set evs)"
    by auto
  show ?case
  proof (cases r)
    case (Inl x)
    with s3 have "es1 = es" by simp
    with Inl g rc i1 i2 i4 i5 s1 ev show ?thesis
      by (auto simp del: ex_simps)
  next
    case (Inr e)
    with s3 have e: "es1 = es @ [e]" "next_id w \<le> ident e" "ident e < next_id w1" by auto
    have "ident e \<notin> ident ` set (returned rs)"
      using i5 e(3) by force
    with Inr g rc i1 i2 i4 i5 s1 ev e show ?thesis
      by (auto simp del: ex_simps)
  qed
qed

lemma test_server_go_step:
  "case test_server_go ext loop c es w of
      ((r, es'), w') \<Rightarrow>
        next_id w \<le> next_id w'
        \<and> (\<exists>evs. events w' = events w @ evs \<and> (\<forall>n. Closed n \<notin> set evs))
        \<and> (case r of
             Inl x \<Rightarrow> es' = es
           | Inr e \<Rightarrow> es' = es @ [e] \<and> next_id w \<le> server_id e \<and> server_id e < next_id w')"
  by (cases c)
     (auto simp: test_server_go_def construct_def start_server_def Let_def split: option.splits)

lemma raw_test_server_go_step:
  "case raw_test_server_go ext loop c es w of
      ((r, es'), w') \<Rightarrow>
        next_id w \<le> next_id w'
        \<and> (\<exists>evs. events w' = events w @ evs \<and> (\<forall>n. Closed n \<notin> set evs))
        \<and> (case r of
             Inl x \<Rightarrow> es' = es
           | Inr e \<Rightarrow> es' = es @ [e] \<and> next_id w \<le> server_id e \<and> server_id e < next_id w')"
  by (cases c)
     (auto simp: raw_test_server_go_def construct_def start_server_def Let_def split: option.splits)

lemma test_client_go_step:
  "case test_client_go ext loop c es w of
      ((r, es'), w') \<Rightarrow>
        next_id w \<le> next_id w'
        \<and> (\<exists>evs. events w' = events w @ evs \<and> (\<forall>n. Closed n \<notin> set evs))
        \<and> (case r of
             Inl x \<Rightarrow> es' = es
           | Inr e \<Rightarrow> es' = es @ [e] \<and> next_id w \<le> client_id e \<and> client_id e < next_id w')"
  by (cases c)
     (auto simp: test_client_go_def make_client_def new_client_def construct_def
        start_server_def Let_def
        split: sum.splits param.splits prod.splits option.splits if_splits)

lemma registry_teardown:
  assumes step: "\<And>c es w. case go c es w of
      ((r, es'), w') \<Rightarrow>
        next_id w \<le> next_id w'
        \<and> (\<exists>evs. events w' = events w @ evs \<and> (\<forall>n. Closed n \<notin> set evs))
        \<and> (case r of
             Inl x \<Rightarrow> es' = es
           | Inr e \<Rightarrow> es' = es @ [e] \<and> next_id w \<le> ident e \<and> ident e < next_id w')"
  shows "case (let entries = [];
                   ((results, entries), w) = run_calls go calls entries w;
                   ((r, entries), w) = run_closure (VLoop l) (finalize ext ident) entries w
               in ((results, r, entries), w)) of
      ((results, r, entries), w') \<Rightarrow>
        distinct (map ident (returned results))
        \<and> (\<exists>before. events w' =
              events w @ before @ Run_until_complete l
                # map (\<lambda>e. Closed (ident e))
                    (takeWhile (\<lambda>e. close_raises ext (ident e) = None) (rev (returned results)))
            \<and> (\<forall>n. Closed n \<notin> set before))
        \<and> (r, entries) =
            (case dropWhile (\<lambda>e. close_raises ext (ident e) = None) (rev (returned results)) of
               [] \<Rightarrow> (Inr (), [])
             | failing # earlier \<Rightarrow>
                 ((case close_raises ext (ident failing) of None \<Rightarrow> Inr () | Some e \<Rightarrow> Inl e),
                  rev earlier))"
proof -
  obtain rs es w1 where rc: "run_calls go calls [] w = ((rs, es), w1)"
    by (metis prod.exhaust)
  from run_calls_tracks [where go = go and ident = ident and cs = calls and es = "[]" and w = w,
      OF step] rc have
    "es = returned rs" "distinct (map ident (returned rs))"
    "\<exists>evs. events w1 = events w @ evs \<and> (\<forall>n. Closed n \<notin> set evs)"
    by auto
  then show ?thesis
    using rc
    by (auto simp: run_closure_def run_until_complete_def finalize_closes_while_ok
        split: list.splits option.splits)
qed

lemma finalize_closes_all:
  assumes "\<forall>e \<in> set entries. close_raises ext (ident e) = None"
  shows "finalize ext ident entries w =
     ((Inr (), []), w\<lparr>events := events w @ map (\<lambda>e. Closed (ident e)) (rev entries)\<rparr>)"
proof -
  from assms have
    d: "dropWhile (\<lambda>e. close_raises ext (ident e) = None) (rev entries) = []"
    and t: "takeWhile (\<lambda>e. close_raises ext (ident e) = None) (rev entries) = rev entries"
    by simp_all
  show ?thesis
    unfolding finalize_closes_while_ok d t by simp
qed

text \<open>
  Three tests, run: one starts two servers; one asks for three clients, of which the
  second call raises; one passes \<open>loop\<close> among the keyword arguments for the client.
\<close>

lemma test_server_example:
  "test_server no_faults (VLoop 3) [(''app1'', VNone, []), (''app2'', VStr ''8080'', [])]
     \<lparr>events = [], next_id = 0, warnings_log = [], gens = (\<lambda>n. []), finalizers = []\<rparr> =
   (([Inr (TestServer 0 ''app1'' [(''port'', VNone)]),
      Inr (TestServer 1 ''app2'' [(''port'', VStr ''8080'')])],
     Inr (), []),
    \<lparr>events = [Started 0, Started 1, Run_until_complete 3, Closed 1, Closed 0],
       next_id = 2, warnings_log = [], gens = (\<lambda>n. []), finalizers = []\<rparr>)"
  by (simp add: test_server_def test_server_go_def construct_def start_server_def close_def
      has_key_def no_faults_def run_closure_def run_until_complete_def finalize.simps
      numeral_2_eq_2 Let_def)

lemma test_client_example:
  "test_client no_faults (VLoop 3)
     [(Application_obj ''app1'', [], None, []),
      (Other_obj ''int'', [], None, []),
      (Server_obj (RawTestServer 77 ''handler'' []), [], None, [])]
     \<lparr>events = [], next_id = 0, warnings_log = [], gens = (\<lambda>n. []), finalizers = []\<rparr> =
   (([Inr (TestClient 1 (TestServer 0 ''app1'' [(''loop'', VLoop 3)]) [(''loop'', VLoop 3)]),
      Inl (Unknown_argument_type ''int''),
      Inr (TestClient 2 (RawTestServer 77 ''handler'' []) [(''loop'', VLoop 3)])],
     Inr (), []),
    \<lparr>events = [Started 1, Started 2, Run_until_complete 3, Closed 2, Closed 1],
       next_id = 3, warnings_log = [], gens = (\<lambda>n. []), finalizers = []\<rparr>)"
  by (simp add: test_client_def test_client_go_def resolve_param_def make_client_def
      new_client_def construct_def start_server_def close_def has_key_def no_faults_def
      run_closure_def run_until_complete_def finalize.simps numeral_2_eq_2 numeral_3_eq_3 Let_def)

lemma test_client_loop_keyword_example:
  "test_client_go no_faults (VLoop 3)
     (Application_obj ''app1'', [], None, [(''loop'', VLoop 8)]) []
     \<lparr>events = [], next_id = 0, warnings_log = [], gens = (\<lambda>n. []), finalizers = []\<rparr> =
   ((Inl (Multiple_values ''loop''), []),
    \<lparr>events = [], next_id = 1, warnings_log = [], gens = (\<lambda>n. []), finalizers = []\<rparr>)"
  by (simp add: test_client_go_def resolve_param_def make_client_def new_client_def
      construct_def has_key_def no_faults_def Let_def)

text \<open>
  C7, as the code has it. For each of the three factories, whatever calls of
  \<^verbatim>\<open>go\<close> the test made and however it ended: the entries that the calls returned
  are distinct objects; nothing is closed before the teardown; the teardown is one run
  on the fixture's loop that closes the entries in the reverse of the order of the
  calls, for as long as \<^verbatim>\<open>close\<close> returns. When every \<^verbatim>\<open>close\<close> returns,
  each entry has been closed once and the list is empty. When one raises, the teardown
  raises the same: the entry is off the list, and the entries made before it are left
  on the list and are not closed.
\<close>

theorem registries_close_in_reverse_order:
  "(case test_server ext (VLoop l) server_calls w of
      ((results, r, servers), w') \<Rightarrow>
        distinct (map server_id (returned results))
        \<and> (\<exists>before. events w' =
              events w @ before @ Run_until_complete l
                # map (\<lambda>e. Closed (server_id e))
                    (takeWhile (\<lambda>e. close_raises ext (server_id e) = None)
                       (rev (returned results)))
            \<and> (\<forall>n. Closed n \<notin> set before))
        \<and> (r, servers) =
            (case dropWhile (\<lambda>e. close_raises ext (server_id e) = None)
                    (rev (returned results)) of
               [] \<Rightarrow> (Inr (), [])
             | failing # earlier \<Rightarrow>
                 ((case close_raises ext (server_id failing) of
                     None \<Rightarrow> Inr () | Some e \<Rightarrow> Inl e),
                  rev earlier)))
   \<and> (case raw_test_server ext (VLoop l) raw_calls w of
      ((results, r, servers), w') \<Rightarrow>
        distinct (map server_id (returned results))
        \<and> (\<exists>before. events w' =
              events w @ before @ Run_until_complete l
                # map (\<lambda>e. Closed (server_id e))
                    (takeWhile (\<lambda>e. close_raises ext (server_id e) = None)
                       (rev (returned results)))
            \<and> (\<forall>n. Closed n \<notin> set before))
        \<and> (r, servers) =
            (case dropWhile (\<lambda>e. close_raises ext (server_id e) = None)
                    (rev (returned results)) of
               [] \<Rightarrow> (Inr (), [])
             | failing # earlier \<Rightarrow>
                 ((case close_raises ext (server_id failing) of
                     None \<Rightarrow> Inr () | Some e \<Rightarrow> Inl e),
                  rev earlier)))
   \<and> (case test_client ext (VLoop l) client_calls w of
      ((results, r, clients), w') \<Rightarrow>
        distinct (map client_id (returned results))
        \<and> (\<exists>before. events w' =
              events w @ before @ Run_until_complete l
                # map (\<lambda>e. Closed (client_id e))
                    (takeWhile (\<lambda>e. close_raises ext (client_id e) = None)
                       (rev (returned results)))
            \<and> (\<forall>n. Closed n \<notin> set before))
        \<and> (r, clients) =
            (case dropWhile (\<lambda>e. close_raises ext (client_id e) = None)
                    (rev (returned results)) of
               [] \<Rightarrow> (Inr (), [])
             | failing # earlier \<Rightarrow>
                 ((case close_raises ext (client_id failing) of
                     None \<Rightarrow> Inr () | Some e \<Rightarrow> Inl e),
                  rev earlier)))"
  unfolding test_server_def raw_test_server_def test_client_def
  using registry_teardown [where go = "test_server_go ext (VLoop l)" and ident = server_id
        and ext = ext and calls = server_calls and w = w and l = l, OF test_server_go_step]
    registry_teardown [where go = "raw_test_server_go ext (VLoop l)" and ident = server_id
        and ext = ext and calls = raw_calls and w = w and l = l, OF raw_test_server_go_step]
    registry_teardown [where go = "test_client_go ext (VLoop l)" and ident = client_id
        and ext = ext and calls = client_calls and w = w and l = l, OF test_client_go_step]
  by blast

text \<open>
  C7 as stated fails: of three servers, the second's \<^verbatim>\<open>close\<close> raises. The third
  is closed; the teardown then raises, the first server is never closed and is still on
  the list.
\<close>

theorem raising_close_leaves_servers_open:
  "test_server
     \<lparr>construct_raises = (\<lambda>n. None), start_raises = (\<lambda>n. None),
        close_raises = (\<lambda>n. if n = 1 then Some (Raised ''close failed'') else None)\<rparr>
     (VLoop 3) [(''app0'', VNone, []), (''app1'', VNone, []), (''app2'', VNone, [])]
     \<lparr>events = [], next_id = 0, warnings_log = [], gens = (\<lambda>n. []), finalizers = []\<rparr> =
   (([Inr (TestServer 0 ''app0'' [(''port'', VNone)]),
      Inr (TestServer 1 ''app1'' [(''port'', VNone)]),
      Inr (TestServer 2 ''app2'' [(''port'', VNone)])],
     Inl (Raised ''close failed''),
     [TestServer 0 ''app0'' [(''port'', VNone)]]),
    \<lparr>events = [Started 0, Started 1, Started 2, Run_until_complete 3, Closed 2],
       next_id = 3, warnings_log = [], gens = (\<lambda>n. []), finalizers = []\<rparr>)"
  by (simp add: test_server_def test_server_go_def construct_def start_server_def close_def
      has_key_def run_closure_def run_until_complete_def finalize.simps
      numeral_2_eq_2 numeral_3_eq_3 Let_def)

text \<open>
  C9, as the code has it. A callable that is neither an application nor a server is
  called with the loop, the positional and the keyword arguments; what it raises is
  raised, and what it returns is treated as a first argument with no positional and no
  keyword arguments (a callable returned is of unknown type). Any other first argument
  with extra positional arguments fails the assertion \<open>args should be empty\<close>.
  Without them: an object of none of the shapes raises the unknown argument type error;
  keyword arguments for a constructor that hold \<open>loop\<close> themselves raise the
  \<^verbatim>\<open>TypeError\<close>; otherwise, when constructing the objects and starting the client
  do not raise, an application gives a started client for a new \<^verbatim>\<open>TestServer\<close> of
  that application, and a server gives a started client for that server, and the client
  is appended to the list.
\<close>

theorem client_factory_dispatch:
  "(\<not> has_key ''loop'' (case server_kwargs of None \<Rightarrow> [] | Some kw \<Rightarrow> kw)
      \<and> \<not> has_key ''loop'' kwargs
      \<and> construct_raises ext (next_id w) = None
      \<and> construct_raises ext (Suc (next_id w)) = None
      \<and> start_raises ext (Suc (next_id w)) = None \<longrightarrow>
    test_client_go ext loop (Application_obj app, [], server_kwargs, kwargs) clients w =
     (let server = TestServer (next_id w) app
                     ((''loop'', loop) # (case server_kwargs of None \<Rightarrow> [] | Some kw \<Rightarrow> kw));
          client = TestClient (Suc (next_id w)) server ((''loop'', loop) # kwargs)
      in ((Inr client, clients @ [client]),
          w\<lparr>events := events w @ [Started (Suc (next_id w))],
             next_id := Suc (Suc (next_id w))\<rparr>)))
   \<and> (\<not> has_key ''loop'' kwargs
      \<and> construct_raises ext (next_id w) = None
      \<and> start_raises ext (next_id w) = None \<longrightarrow>
    test_client_go ext loop (Server_obj server, [], server_kwargs, kwargs) clients w =
     (let client = TestClient (next_id w) server ((''loop'', loop) # kwargs)
      in ((Inr client, clients @ [client]),
          w\<lparr>events := events w @ [Started (next_id w)], next_id := Suc (next_id w)\<rparr>)))
   \<and> (has_key ''loop'' dup_kwargs \<longrightarrow>
    test_client_go ext loop (Server_obj server, [], server_kwargs, dup_kwargs) clients w =
      ((Inl (Multiple_values ''loop''), clients), w))
   \<and> (has_key ''loop'' dup_kwargs \<longrightarrow>
    test_client_go ext loop (Application_obj app, [], Some dup_kwargs, kwargs) clients w =
      ((Inl (Multiple_values ''loop''), clients), w))
   \<and> test_client_go ext loop (Callable_obj cls f, args, server_kwargs, kwargs) clients w =
     (case f loop args kwargs of
        Inl e \<Rightarrow> ((Inl e, clients), w)
      | Inr (Callable_obj cls' f') \<Rightarrow> ((Inl (Unknown_argument_type cls'), clients), w)
      | Inr param \<Rightarrow> test_client_go ext loop (param, [], server_kwargs, []) clients w)
   \<and> test_client_go ext loop (Other_obj cls, [], server_kwargs, kwargs) clients w =
     ((Inl (Unknown_argument_type cls), clients), w)
   \<and> (args \<noteq> [] \<and> (\<forall>cls f. param \<noteq> Callable_obj cls f) \<longrightarrow>
       test_client_go ext loop (param, args, server_kwargs, kwargs) clients w =
         ((Inl (AssertionError ''args should be empty''), clients), w))"
proof (intro conjI impI)
  assume "\<not> has_key ''loop'' (case server_kwargs of None \<Rightarrow> [] | Some kw \<Rightarrow> kw)
      \<and> \<not> has_key ''loop'' kwargs
      \<and> construct_raises ext (next_id w) = None
      \<and> construct_raises ext (Suc (next_id w)) = None
      \<and> start_raises ext (Suc (next_id w)) = None"
  then show "test_client_go ext loop (Application_obj app, [], server_kwargs, kwargs) clients w =
     (let server = TestServer (next_id w) app
                     ((''loop'', loop) # (case server_kwargs of None \<Rightarrow> [] | Some kw \<Rightarrow> kw));
          client = TestClient (Suc (next_id w)) server ((''loop'', loop) # kwargs)
      in ((Inr client, clients @ [client]),
          w\<lparr>events := events w @ [Started (Suc (next_id w))],
             next_id := Suc (Suc (next_id w))\<rparr>))"
    by (simp add: test_client_go_def resolve_param_def make_client_def new_client_def
        construct_def start_server_def Let_def)
next
  assume "\<not> has_key ''loop'' kwargs
      \<and> construct_raises ext (next_id w) = None
      \<and> start_raises ext (next_id w) = None"
  then show "test_client_go ext loop (Server_obj server, [], server_kwargs, kwargs) clients w =
     (let client = TestClient (next_id w) server ((''loop'', loop) # kwargs)
      in ((Inr client, clients @ [client]),
          w\<lparr>events := events w @ [Started (next_id w)], next_id := Suc (next_id w)\<rparr>))"
    by (simp add: test_client_go_def resolve_param_def make_client_def new_client_def
        construct_def start_server_def Let_def)
next
  assume "has_key ''loop'' dup_kwargs"
  then show "test_client_go ext loop (Server_obj server, [], server_kwargs, dup_kwargs) clients w =
      ((Inl (Multiple_values ''loop''), clients), w)"
    by (simp add: test_client_go_def resolve_param_def make_client_def new_client_def)
next
  assume "has_key ''loop'' dup_kwargs"
  then show "test_client_go ext loop (Application_obj app, [], Some dup_kwargs, kwargs) clients w =
      ((Inl (Multiple_values ''loop''), clients), w)"
    by (simp add: test_client_go_def resolve_param_def make_client_def)
next
  show "test_client_go ext loop (Callable_obj cls f, args, server_kwargs, kwargs) clients w =
     (case f loop args kwargs of
        Inl e \<Rightarrow> ((Inl e, clients), w)
      | Inr (Callable_obj cls' f') \<Rightarrow> ((Inl (Unknown_argument_type cls'), clients), w)
      | Inr param \<Rightarrow> test_client_go ext loop (param, [], server_kwargs, []) clients w)"
    by (simp add: test_client_go_def resolve_param_def make_client_def
        split: sum.splits param.splits)
next
  show "test_client_go ext loop (Other_obj cls, [], server_kwargs, kwargs) clients w =
     ((Inl (Unknown_argument_type cls), clients), w)"
    by (simp add: test_client_go_def resolve_param_def make_client_def)
next
  assume "args \<noteq> [] \<and> (\<forall>cls f. param \<noteq> Callable_obj cls f)"
  then show "test_client_go ext loop (param, args, server_kwargs, kwargs) clients w =
         ((Inl (AssertionError ''args should be empty''), clients), w)"
    by (cases param) (simp_all add: test_client_go_def resolve_param_def)
qed

theorem client_factory_dispatch_witness:
  "[VStr ''extra''] \<noteq> [] \<and> (\<forall>cls f. Application_obj ''app'' \<noteq> Callable_obj cls f)
   \<and> has_key ''loop'' [(''loop'', VLoop 8)] \<and> \<not> has_key ''loop'' []
   \<and> test_client_go no_faults (VLoop 7) (Application_obj ''app'', [VStr ''extra''], None, []) []
        \<lparr>events = [], next_id = 0, warnings_log = [], gens = (\<lambda>n. []), finalizers = []\<rparr> =
      ((Inl (AssertionError ''args should be empty''), []),
       \<lparr>events = [], next_id = 0, warnings_log = [], gens = (\<lambda>n. []), finalizers = []\<rparr>)
   \<and> test_client_go no_faults (VLoop 7) (Application_obj ''app'', [], None, []) []
        \<lparr>events = [], next_id = 0, warnings_log = [], gens = (\<lambda>n. []), finalizers = []\<rparr> =
      ((Inr (TestClient (Suc 0) (TestServer 0 ''app'' [(''loop'', VLoop 7)]) [(''loop'', VLoop 7)]),
        [TestClient (Suc 0) (TestServer 0 ''app'' [(''loop'', VLoop 7)]) [(''loop'', VLoop 7)]]),
       \<lparr>events = [Started (Suc 0)], next_id = Suc (Suc 0), warnings_log = [],
          gens = (\<lambda>n. []), finalizers = []\<rparr>)
   \<and> test_client_go no_faults (VLoop 7)
        (Server_obj (TestServer 0 ''app'' []), [], None, [(''loop'', VLoop 8)]) []
        \<lparr>events = [], next_id = 0, warnings_log = [], gens = (\<lambda>n. []), finalizers = []\<rparr> =
      ((Inl (Multiple_values ''loop''), []),
       \<lparr>events = [], next_id = 0, warnings_log = [], gens = (\<lambda>n. []), finalizers = []\<rparr>)"
  using client_factory_dispatch
    [where ext = no_faults and loop = "VLoop 7" and app = "''app''"
       and param = "Application_obj ''app''"
       and args = "[VStr ''extra'']" and server_kwargs = None and kwargs = "[]" and clients = "[]"
       and dup_kwargs = "[(''loop'', VLoop 8)]"
       and server = "TestServer 0 ''app'' []" and cls = "''function''"
       and f = "\<lambda>loop args kwargs. Inl (Raised ''unused'')"
       and w = "\<lparr>events = [], next_id = 0, warnings_log = [], gens = (\<lambda>n. []), finalizers = []\<rparr>"]
  by (simp add: Let_def has_key_def no_faults_def)

text \<open>
  C9 as stated fails: an argument of none of the three shapes, passed with an extra
  positional argument, raises the \<^verbatim>\<open>AssertionError\<close>, not the unknown argument
  type error.
\<close>

theorem unknown_type_with_args_fails_the_assertion:
  "test_client_go no_faults (VLoop 1) (Other_obj ''int'', [VStr ''extra''], None, []) []
        \<lparr>events = [], next_id = 0, warnings_log = [], gens = (\<lambda>n. []), finalizers = []\<rparr> =
      ((Inl (AssertionError ''args should be empty''), []),
       \<lparr>events = [], next_id = 0, warnings_log = [], gens = (\<lambda>n. []), finalizers = []\<rparr>)
   \<and> AssertionError ''args should be empty'' \<noteq> Unknown_argument_type ''int''"
  by (simp add: test_client_go_def resolve_param_def)

end
